theory Spec2Isabelle
  imports Main
begin

section \<open>JavaScript values and strings\<close>

text \<open>
  The front end passes untyped JavaScript values around: the payload of a chat message, the
  result of \<^verbatim>\<open>JSON.parse\<close>, the file tree held in React state. They are modelled by one
  datatype. An object is the list of its own enumerable properties, in creation order; no
  definition below enumerates an object, every access is a lookup by name. (JavaScript
  lists integer-like names first; that order is not modelled.) A function or an object of
  the language that is reached through a prototype, such as \<^verbatim>\<open>Object.prototype.toString\<close>,
  is a value of its own kind, known by its name: it has no enumerable own property and none
  of the properties that the code reads by name.

  A JavaScript string is a sequence of UTF-16 code units. It is modelled by \<open>string\<close>, whose
  characters are the code units below 256 (Latin-1), so the statements below are about the
  strings made of such code units.

  A number carries the literal it was read from; the double it denotes is never computed,
  since nothing below inspects a number.
\<close>

datatype jsval =
    JUndefined
  | JNull
  | JBool bool
  | JNum string
  | JStr string
  | JArr "jsval list"
  | JObj "(string \<times> jsval) list"
  | JBuiltin string

text \<open>What a \<^verbatim>\<open>throw\<close> carries, as far as the code tells the cases apart.\<close>

datatype jserror = SyntaxError | TypeError

definition typeof :: "jsval \<Rightarrow> string" where
  "typeof v = (case v of
       JUndefined \<Rightarrow> ''undefined''
     | JNull \<Rightarrow> ''object''
     | JBool _ \<Rightarrow> ''boolean''
     | JNum _ \<Rightarrow> ''number''
     | JStr _ \<Rightarrow> ''string''
     | JArr _ \<Rightarrow> ''object''
     | JObj _ \<Rightarrow> ''object''
     | JBuiltin name \<Rightarrow> if name = ''Object.prototype'' then ''object'' else ''function'')"

text \<open>Truthiness, as \<^verbatim>\<open>if (v)\<close>, \<^verbatim>\<open>v && w\<close> and \<^verbatim>\<open>v || w\<close> read it. A number is falsy when
  it is a zero; the literal of a zero has no digit other than 0 before its exponent. (A
  literal so small that its double is zero is not recognized as a zero.)\<close>

definition zeroLiteral :: "string \<Rightarrow> bool" where
  "zeroLiteral l =
     list_all (\<lambda>c. c = CHR ''-'' \<or> c = CHR ''0'' \<or> c = CHR ''.'')
       (takeWhile (\<lambda>c. c \<noteq> CHR ''e'' \<and> c \<noteq> CHR ''E'') l)"

definition truthy :: "jsval \<Rightarrow> bool" where
  "truthy v = (case v of
       JUndefined \<Rightarrow> False
     | JNull \<Rightarrow> False
     | JBool b \<Rightarrow> b
     | JNum l \<Rightarrow> \<not> zeroLiteral l
     | JStr s \<Rightarrow> s \<noteq> []
     | JArr _ \<Rightarrow> True
     | JObj _ \<Rightarrow> True
     | JBuiltin _ \<Rightarrow> True)"

subsection \<open>String methods\<close>

text \<open>\<^verbatim>\<open>s.includes(sub)\<close>: \<open>sub\<close> occurs in \<open>s\<close> as a contiguous run.\<close>

fun startsWith :: "string \<Rightarrow> string \<Rightarrow> bool" where
  "startsWith s [] = True"
| "startsWith [] (p # ps) = False"
| "startsWith (c # cs) (p # ps) = (c = p \<and> startsWith cs ps)"

fun includesStr :: "string \<Rightarrow> string \<Rightarrow> bool" where
  "includesStr [] sub = (sub = [])"
| "includesStr (c # cs) sub = (startsWith (c # cs) sub \<or> includesStr cs sub)"

text \<open>\<^verbatim>\<open>s.toLowerCase()\<close> on code units below 256: the letters A to Z and the Latin-1 capitals
  (0xC0 to 0xDE without the multiplication sign 0xD7) move up by 32.\<close>

definition lowerChar :: "char \<Rightarrow> char" where
  "lowerChar c =
     (let n = (of_char c :: nat)
      in if (65 \<le> n \<and> n \<le> 90) \<or> (192 \<le> n \<and> n \<le> 222 \<and> n \<noteq> 215)
         then char_of (n + 32) else c)"

definition toLowerCase :: "string \<Rightarrow> string" where
  "toLowerCase s = map lowerChar s"

text \<open>\<^verbatim>\<open>s.split(sep)\<close> for a separator of one character: the segments between the
  separators, always at least one.\<close>

fun split :: "string \<Rightarrow> char \<Rightarrow> string list" where
  "split [] sep = [[]]"
| "split (c # cs) sep =
     (if c = sep then [] # split cs sep
      else (case split cs sep of
              [] \<Rightarrow> [[c]]
            | seg # segs \<Rightarrow> (c # seg) # segs))"

text \<open>\<^verbatim>\<open>s.replace(/\\x/g, r)\<close>: every backslash followed by \<open>x\<close> becomes \<open>r\<close>, scanning from
  the left and continuing after each replacement.\<close>

fun replaceEscaped :: "char \<Rightarrow> char \<Rightarrow> string \<Rightarrow> string" where
  "replaceEscaped x r (a # b # cs) =
     (if a = CHR 0x5C \<and> b = x then r # replaceEscaped x r cs
      else a # replaceEscaped x r (b # cs))"
| "replaceEscaped x r cs = cs"

subsection \<open>Objects\<close>

text \<open>\<^verbatim>\<open>{...props, [k]: v}\<close>: the property keeps its place when it exists already and is
  added at the end otherwise (also an integer-like name, which JavaScript would list
  first).\<close>

fun setProp :: "string \<Rightarrow> jsval \<Rightarrow> (string \<times> jsval) list \<Rightarrow> (string \<times> jsval) list" where
  "setProp k v [] = [(k, v)]"
| "setProp k v (p # ps) = (if fst p = k then (k, v) # ps else p # setProp k v ps)"

text \<open>Own property lookup on an object: \<^verbatim>\<open>undefined\<close> when the property is absent.\<close>

definition ownProp :: "(string \<times> jsval) list \<Rightarrow> string \<Rightarrow> jsval" where
  "ownProp ps k = (case map_of ps k of None \<Rightarrow> JUndefined | Some v \<Rightarrow> v)"

text \<open>\<^verbatim>\<open>v.name\<close> for one of the names that the code reads (\<^verbatim>\<open>text\<close>, \<^verbatim>\<open>fileTree\<close>,
  \<^verbatim>\<open>directory\<close>, \<^verbatim>\<open>file\<close>, \<^verbatim>\<open>contents\<close>), none of which a prototype of the language
  defines: reading a property of \<^verbatim>\<open>undefined\<close> or \<^verbatim>\<open>null\<close> throws a TypeError, and a
  primitive, an array or a built-in has no such property.\<close>

definition member :: "jsval \<Rightarrow> string \<Rightarrow> jserror + jsval" where
  "member v name = (case v of
       JUndefined \<Rightarrow> Inl TypeError
     | JNull \<Rightarrow> Inl TypeError
     | JObj ps \<Rightarrow> Inr (ownProp ps name)
     | _ \<Rightarrow> Inr JUndefined)"

text \<open>\<^verbatim>\<open>v?.name\<close>: \<^verbatim>\<open>undefined\<close> instead of the TypeError.\<close>

definition optMember :: "jsval \<Rightarrow> string \<Rightarrow> jsval" where
  "optMember v name = (case member v name of Inl _ \<Rightarrow> JUndefined | Inr w \<Rightarrow> w)"

text \<open>
  What an object inherits: the properties of \<^verbatim>\<open>Object.prototype\<close> (ECMA-262, 20.1.3 and
  B.2.2). \<^verbatim>\<open>__proto__\<close> gives the prototype itself, \<^verbatim>\<open>constructor\<close> the function
  \<^verbatim>\<open>Object\<close>, the other names a method.
\<close>

definition objectPrototype :: "string \<Rightarrow> jsval option" where
  "objectPrototype key =
     (if key = ''__proto__'' then Some (JBuiltin ''Object.prototype'')
      else if key = ''constructor'' then Some (JBuiltin ''Object'')
      else if key \<in> set [''hasOwnProperty'', ''isPrototypeOf'', ''propertyIsEnumerable'',
                          ''toLocaleString'', ''toString'', ''valueOf'',
                          ''__defineGetter__'', ''__defineSetter__'',
                          ''__lookupGetter__'', ''__lookupSetter__'']
        then Some (JBuiltin (''Object.prototype.'' @ key))
      else None)"

text \<open>What an array, a string, a number, a boolean or a built-in inherits depends on the
  version of the language; it is an argument of the definitions that look a computed name
  up, and what is proved holds for every such argument.\<close>

type_synonym prototypes = "jsval \<Rightarrow> string \<Rightarrow> jsval option"

section \<open>The resilient decoder: \<^verbatim>\<open>sanitizeJsonString\<close> (screens/Project.jsx, lines 11 to 74)\<close>

text \<open>
  The pattern of line 47,
  \<^verbatim>\<open>/"text"\s*:\s*"((?:[^"\\]|\\.|[\s\S])*?)(?:"[,}]|$)/\<close>,
  is matched as a backtracking engine does. After the opening quote of the value the lazy
  group first tries to stop (a quote followed by a comma or a closing brace, or the end of
  the input) and otherwise takes one more iteration, by the first alternative that applies:
  a character other than quote and backslash, a backslash with the character after it
  (not a line terminator), any one character. The last alternative takes any character and \<^verbatim>\<open>$\<close>
  holds at the end, so no choice is ever undone: the capture is computed by one pass.
\<close>

definition isSpace :: "char \<Rightarrow> bool" where
  \<comment> \<open>\<^verbatim>\<open>\s\<close> on code units below 256: tab, line feed, vertical tab, form feed, carriage
      return, space, no-break space\<close>
  "isSpace c = (of_char c \<in> {9, 10, 11, 12, 13, 32, 160 :: nat})"

definition isLineTerminator :: "char \<Rightarrow> bool" where
  "isLineTerminator c = (of_char c \<in> {10, 13 :: nat})"

fun lazyCapture :: "string \<Rightarrow> string" where
  "lazyCapture [] = []"
| "lazyCapture [c] = [c]"
| "lazyCapture (c # d # cs) =
     (if c = CHR 0x22 \<and> (d = CHR '','' \<or> d = CHR ''}'') then []
      else if c \<noteq> CHR 0x22 \<and> c \<noteq> CHR 0x5C then c # lazyCapture (d # cs)
      else if c = CHR 0x5C \<and> \<not> isLineTerminator d then c # d # lazyCapture cs
      else c # lazyCapture (d # cs))"

text \<open>The pattern tried at the start of the input: the capture group when it matches there.\<close>

definition textMatchHere :: "string \<Rightarrow> string option" where
  "textMatchHere s =
     (if startsWith s ''\"text\"'' then
        (case dropWhile isSpace (drop 6 s) of
           c # r \<Rightarrow>
             (if c = CHR '':'' then
                (case dropWhile isSpace r of
                   q # body \<Rightarrow> (if q = CHR 0x22 then Some (lazyCapture body) else None)
                 | [] \<Rightarrow> None)
              else None)
         | [] \<Rightarrow> None)
      else None)"

text \<open>\<^verbatim>\<open>jsonString.match(...)\<close>: the leftmost position where the pattern matches.\<close>

fun textMatch :: "string \<Rightarrow> string option" where
  "textMatch [] = textMatchHere []"
| "textMatch (c # cs) =
     (case textMatchHere (c # cs) of Some m \<Rightarrow> Some m | None \<Rightarrow> textMatch cs)"

definition templateNotice :: jsval where
  "templateNotice =
     JObj [(''text'', JStr ''Creating React application files. Check the file explorer panel.''),
           (''fileTree'', JBool True)]"

definition fileTreeNotice :: jsval where
  "fileTreeNotice =
     JObj [(''text'',
            JStr ''```\<newline>File structure created. Check the file explorer panel.\<newline>```''),
           (''fileTree'', JBool True)]"

definition rawExcerpt :: "string \<Rightarrow> jsval" where
  "rawExcerpt s =
     JObj [(''text'',
            JStr (''AI response (JSON parsing failed):\<newline>\<newline>```\<newline>''
                  @ (if length s > 300 then take 300 s @ ''...'' else s)
                  @ ''\<newline>```''))]"

text \<open>Line 18: the test that sends a payload to the template notice.\<close>

definition templateMarker :: "string \<Rightarrow> bool" where
  "templateMarker s =
     (includesStr s ''\"fileTree\"'' \<and> (includesStr s ''react'' \<or> includesStr s ''package.json''))"

text \<open>Lines 31 to 69, the handler of a failed \<^verbatim>\<open>JSON.parse\<close>. The logging of the error
  position has no effect on the result.\<close>

definition recover :: "string \<Rightarrow> jserror + jsval" where
  "recover s =
     (case textMatch s of
        Some (c # cs) \<Rightarrow>
          Inr (JObj [(''text'',
                 JStr (replaceEscaped CHR ''n'' CHR ''\<newline>''
                        (replaceEscaped CHR 0x22 CHR 0x22 (c # cs))))])
      | _ \<Rightarrow>
          (if includesStr s ''\"fileTree\"'' then Inr fileTreeNotice
           else Inr (rawExcerpt s)))"

text \<open>
  \<^verbatim>\<open>JSON.parse\<close> is the argument \<open>parse\<close>: \<open>Inl\<close> is the exception it throws. What is
  proved for every \<open>parse\<close> does not depend on what the parser does; \<open>JSON_parse\<close> below is
  the parser of the language.
\<close>

definition sanitizeJsonString :: "(string \<Rightarrow> jserror + jsval) \<Rightarrow> jsval \<Rightarrow> jserror + jsval" where
  "sanitizeJsonString parse jsonString =
     (case
        (case jsonString of
           JStr s \<Rightarrow>
             (if templateMarker s then Inr templateNotice
              else (case parse s of
                      Inr v \<Rightarrow> Inr v
                    | Inl firstError \<Rightarrow> recover s))
         | _ \<Rightarrow> Inr jsonString)
      of
        Inr v \<Rightarrow> Inr v
      | Inl finalError \<Rightarrow> Inr (JObj [(''text'', JStr ''Error displaying message content'')]))"

subsection \<open>The recovery as the specification words it\<close>

text \<open>
  The specification has the third tier locate the field by pattern match in the raw text,
  unescape the common escape sequences and return the body. The definitions of this part
  say so without the pattern of line 47 and without its two replacements; the theorems
  below compare them with the code.
\<close>








section \<open>\<^verbatim>\<open>JSON.parse\<close>\<close>

text \<open>
  The parser of the language (ECMA-262, JSON.parse; the grammar of ECMA-404), in two passes
  that each read their input once: the text becomes tokens, the tokens become a value. White
  space is space, tab, line feed and carriage return. A string holds no control character
  and only the escapes of the grammar. A number is an optional minus, an integer part
  without a leading zero, an optional fraction and an optional exponent. In an object a
  repeated name keeps its first place and its last value. Nothing may follow the value but
  white space. Any violation is the SyntaxError that \<^verbatim>\<open>JSON.parse\<close> throws.

  A \<^verbatim>\<open>\u\<close> escape above 0x00FF denotes a code unit that \<open>char\<close> does not have; it is kept
  by its low byte. Whether the text parses does not depend on it.
\<close>

datatype token =
    TLBrace | TRBrace | TLBracket | TRBracket | TColon | TComma
  | TString string | TNumber string | TTrue | TFalse | TNull

datatype numPhase =
    NMinus | NZero | NInt | NDot | NFrac | NExp | NExpSign | NExpDigits

datatype lexState =
    LDefault
  | LString string
  | LEscape string
  | LUnicode string nat nat
  | LNumber numPhase string
  | LLiteral string token

definition isDigit :: "char \<Rightarrow> bool" where
  "isDigit c = (48 \<le> (of_char c :: nat) \<and> (of_char c :: nat) \<le> 57)"

definition hexValue :: "char \<Rightarrow> nat option" where
  "hexValue c =
     (let n = (of_char c :: nat)
      in if 48 \<le> n \<and> n \<le> 57 then Some (n - 48)
         else if 97 \<le> n \<and> n \<le> 102 then Some (n - 87)
         else if 65 \<le> n \<and> n \<le> 70 then Some (n - 55)
         else None)"

definition jsonSpace :: "char \<Rightarrow> bool" where
  "jsonSpace c = (of_char c \<in> {32, 9, 10, 13 :: nat})"

text \<open>A character met between tokens.\<close>

definition lexStart :: "char \<Rightarrow> (lexState \<times> token list) option" where
  "lexStart c =
     (if jsonSpace c then Some (LDefault, [])
      else if c = CHR ''{'' then Some (LDefault, [TLBrace])
      else if c = CHR ''}'' then Some (LDefault, [TRBrace])
      else if c = CHR ''['' then Some (LDefault, [TLBracket])
      else if c = CHR '']'' then Some (LDefault, [TRBracket])
      else if c = CHR '':'' then Some (LDefault, [TColon])
      else if c = CHR '','' then Some (LDefault, [TComma])
      else if c = CHR 0x22 then Some (LString [], [])
      else if c = CHR ''-'' then Some (LNumber NMinus [c], [])
      else if c = CHR ''0'' then Some (LNumber NZero [c], [])
      else if isDigit c then Some (LNumber NInt [c], [])
      else if c = CHR ''t'' then Some (LLiteral ''rue'' TTrue, [])
      else if c = CHR ''f'' then Some (LLiteral ''alse'' TFalse, [])
      else if c = CHR ''n'' then Some (LLiteral ''ull'' TNull, [])
      else None)"

text \<open>The character after a backslash in a string.\<close>

definition escapeChar :: "char \<Rightarrow> char option" where
  "escapeChar c =
     (if c = CHR 0x22 then Some (CHR 0x22)
      else if c = CHR 0x5C then Some (CHR 0x5C)
      else if c = CHR ''/'' then Some (CHR ''/'')
      else if c = CHR ''b'' then Some (CHR 0x08)
      else if c = CHR ''f'' then Some (CHR 0x0C)
      else if c = CHR ''n'' then Some (CHR 0x0A)
      else if c = CHR ''r'' then Some (CHR 0x0D)
      else if c = CHR ''t'' then Some (CHR 0x09)
      else None)"

text \<open>A number may end where the next character does not continue it, if it is complete
  there; the character is then read as the start of the next token.\<close>

definition numComplete :: "numPhase \<Rightarrow> bool" where
  "numComplete ph = (ph = NZero \<or> ph = NInt \<or> ph = NFrac \<or> ph = NExpDigits)"

definition numNext :: "numPhase \<Rightarrow> char \<Rightarrow> numPhase option" where
  "numNext ph c =
     (let exp = (c = CHR ''e'' \<or> c = CHR ''E'')
      in case ph of
           NMinus \<Rightarrow> if c = CHR ''0'' then Some NZero else if isDigit c then Some NInt else None
         | NZero \<Rightarrow> if c = CHR ''.'' then Some NDot else if exp then Some NExp else None
         | NInt \<Rightarrow> if isDigit c then Some NInt else if c = CHR ''.'' then Some NDot
                   else if exp then Some NExp else None
         | NDot \<Rightarrow> if isDigit c then Some NFrac else None
         | NFrac \<Rightarrow> if isDigit c then Some NFrac else if exp then Some NExp else None
         | NExp \<Rightarrow> if c = CHR ''+'' \<or> c = CHR ''-'' then Some NExpSign
                   else if isDigit c then Some NExpDigits else None
         | NExpSign \<Rightarrow> if isDigit c then Some NExpDigits else None
         | NExpDigits \<Rightarrow> if isDigit c then Some NExpDigits else None)"

fun lexStep :: "lexState \<Rightarrow> char \<Rightarrow> (lexState \<times> token list) option" where
  "lexStep LDefault c = lexStart c"
| "lexStep (LString acc) c =
     (if c = CHR 0x22 then Some (LDefault, [TString acc])
      else if c = CHR 0x5C then Some (LEscape acc, [])
      else if (of_char c :: nat) < 32 then None
      else Some (LString (acc @ [c]), []))"
| "lexStep (LEscape acc) c =
     (if c = CHR ''u'' then Some (LUnicode acc 4 0, [])
      else (case escapeChar c of
              Some x \<Rightarrow> Some (LString (acc @ [x]), [])
            | None \<Rightarrow> None))"
| "lexStep (LUnicode acc k n) c =
     (case hexValue c of
        None \<Rightarrow> None
      | Some d \<Rightarrow>
          (if k \<le> 1 then Some (LString (acc @ [char_of (n * 16 + d)]), [])
           else Some (LUnicode acc (k - 1) (n * 16 + d), [])))"
| "lexStep (LNumber ph l) c =
     (case numNext ph c of
        Some ph' \<Rightarrow> Some (LNumber ph' (l @ [c]), [])
      | None \<Rightarrow>
          (if numComplete ph then
             (case lexStart c of
                Some (st, toks) \<Rightarrow> Some (st, TNumber l # toks)
              | None \<Rightarrow> None)
           else None))"
| "lexStep (LLiteral rest tok) c =
     (case rest of
        [] \<Rightarrow> None
      | r # rs \<Rightarrow>
          (if c \<noteq> r then None
           else if rs = [] then Some (LDefault, [tok])
           else Some (LLiteral rs tok, [])))"

definition lexEnd :: "lexState \<Rightarrow> token list option" where
  "lexEnd st = (case st of
       LDefault \<Rightarrow> Some []
     | LNumber ph l \<Rightarrow> if numComplete ph then Some [TNumber l] else None
     | _ \<Rightarrow> None)"

fun lexFrom :: "lexState \<Rightarrow> string \<Rightarrow> token list option" where
  "lexFrom st [] = lexEnd st"
| "lexFrom st (c # cs) =
     (case lexStep st c of
        None \<Rightarrow> None
      | Some (st', toks) \<Rightarrow>
          (case lexFrom st' cs of
             None \<Rightarrow> None
           | Some rest \<Rightarrow> Some (toks @ rest)))"

text \<open>The containers that are open, innermost first: an array with its elements so far, an
  object with its properties so far and the name read last.\<close>

datatype frame =
    ArrFrame "jsval list"
  | ObjFrame "(string \<times> jsval) list" string

datatype parseMode =
    PValue | PArrStart | PObjStart | PKey | PColon | PAfter | PDone jsval

fun finishValue :: "jsval \<Rightarrow> frame list \<Rightarrow> frame list \<times> parseMode" where
  "finishValue v [] = ([], PDone v)"
| "finishValue v (ArrFrame xs # fs) = (ArrFrame (xs @ [v]) # fs, PAfter)"
| "finishValue v (ObjFrame ps k # fs) = (ObjFrame (setProp k v ps) k # fs, PAfter)"

definition closeArray :: "frame list \<Rightarrow> (frame list \<times> parseMode) option" where
  "closeArray fs = (case fs of
       ArrFrame xs # fs' \<Rightarrow> Some (finishValue (JArr xs) fs')
     | _ \<Rightarrow> None)"

definition closeObject :: "frame list \<Rightarrow> (frame list \<times> parseMode) option" where
  "closeObject fs = (case fs of
       ObjFrame ps k # fs' \<Rightarrow> Some (finishValue (JObj ps) fs')
     | _ \<Rightarrow> None)"

definition startValue :: "frame list \<Rightarrow> token \<Rightarrow> (frame list \<times> parseMode) option" where
  "startValue fs t = (case t of
       TLBrace \<Rightarrow> Some (ObjFrame [] [] # fs, PObjStart)
     | TLBracket \<Rightarrow> Some (ArrFrame [] # fs, PArrStart)
     | TString s \<Rightarrow> Some (finishValue (JStr s) fs)
     | TNumber l \<Rightarrow> Some (finishValue (JNum l) fs)
     | TTrue \<Rightarrow> Some (finishValue (JBool True) fs)
     | TFalse \<Rightarrow> Some (finishValue (JBool False) fs)
     | TNull \<Rightarrow> Some (finishValue JNull fs)
     | _ \<Rightarrow> None)"

definition readKey :: "frame list \<Rightarrow> token \<Rightarrow> (frame list \<times> parseMode) option" where
  "readKey fs t = (case (t, fs) of
       (TString k, ObjFrame ps _ # fs') \<Rightarrow> Some (ObjFrame ps k # fs', PColon)
     | _ \<Rightarrow> None)"

fun parseStep :: "frame list \<times> parseMode \<Rightarrow> token \<Rightarrow> (frame list \<times> parseMode) option" where
  "parseStep (fs, PValue) t = startValue fs t"
| "parseStep (fs, PArrStart) t = (if t = TRBracket then closeArray fs else startValue fs t)"
| "parseStep (fs, PObjStart) t = (if t = TRBrace then closeObject fs else readKey fs t)"
| "parseStep (fs, PKey) t = readKey fs t"
| "parseStep (fs, PColon) t = (if t = TColon then Some (fs, PValue) else None)"
| "parseStep (fs, PAfter) t =
     (if t = TComma then
        (case fs of
           ArrFrame xs # fs' \<Rightarrow> Some (fs, PValue)
         | ObjFrame ps k # fs' \<Rightarrow> Some (fs, PKey)
         | [] \<Rightarrow> None)
      else if t = TRBracket then closeArray fs
      else if t = TRBrace then closeObject fs
      else None)"
| "parseStep (fs, PDone v) t = None"

fun parseTokens :: "frame list \<times> parseMode \<Rightarrow> token list \<Rightarrow> jsval option" where
  "parseTokens st [] = (case snd st of PDone v \<Rightarrow> Some v | _ \<Rightarrow> None)"
| "parseTokens st (t # ts) =
     (case parseStep st t of
        None \<Rightarrow> None
      | Some st' \<Rightarrow> parseTokens st' ts)"

definition JSON_parse :: "string \<Rightarrow> jserror + jsval" where
  "JSON_parse s =
     (case lexFrom LDefault s of
        None \<Rightarrow> Inl SyntaxError
      | Some ts \<Rightarrow>
          (case parseTokens ([], PValue) ts of
             None \<Rightarrow> Inl SyntaxError
           | Some v \<Rightarrow> Inr v))"

section \<open>The brace-balancing version of the decoder\<close>

text \<open>
  A second version of the project screen defines \<^verbatim>\<open>sanitizeJsonString\<close> with other
  recovery steps: after a failed parse the text is repaired by five replacements, missing
  closing braces and brackets are added, and the repaired text is parsed; when that fails
  too, the pattern \<^verbatim>\<open>/"text"\s*:\s*"((?:[^"\\]|\\.)*)"/\<close> is tried, which needs the closing
  quote of the value. Each replacement scans from the left and goes on after a match.

  In the last pattern the group is greedy. It stops before a quote, before a backslash
  that nothing or a line terminator follows, or at the end, and every shorter choice ends
  before a character that is not a quote; so the pattern matches at a place exactly when a
  quote follows the longest run.
\<close>

text \<open>\<^verbatim>\<open>.replace(/([^\\])(\\)([^\\/"bfnrtu])/g, '$1\\\\$3')\<close>\<close>

fun doubleStrayBackslashes :: "string \<Rightarrow> string" where
  "doubleStrayBackslashes (a # b # c # cs) =
     (if a \<noteq> CHR 0x5C \<and> b = CHR 0x5C
         \<and> c \<notin> set (CHR 0x5C # CHR 0x22 # ''/bfnrtu'')
      then a # CHR 0x5C # CHR 0x5C # c # doubleStrayBackslashes cs
      else a # doubleStrayBackslashes (b # c # cs))"
| "doubleStrayBackslashes cs = cs"

text \<open>\<^verbatim>\<open>.replace(/([^\\])\\n/g, '$1\\\\n')\<close>, and the same for \<^verbatim>\<open>t\<close>.\<close>

fun doubleEscape :: "char \<Rightarrow> string \<Rightarrow> string" where
  "doubleEscape x (a # b # c # cs) =
     (if a \<noteq> CHR 0x5C \<and> b = CHR 0x5C \<and> c = x
      then a # CHR 0x5C # CHR 0x5C # x # doubleEscape x cs
      else a # doubleEscape x (b # c # cs))"
| "doubleEscape x cs = cs"

text \<open>\<^verbatim>\<open>.replace(/([{,]\s*)([a-zA-Z0-9_$]+)(\s*:)/g, '$1"$2"$3')\<close>: the replacement for a
  match at the start of the text, and the text after the match.\<close>

definition isWordChar :: "char \<Rightarrow> bool" where
  "isWordChar c =
     (let n = (of_char c :: nat)
      in (97 \<le> n \<and> n \<le> 122) \<or> (65 \<le> n \<and> n \<le> 90) \<or> (48 \<le> n \<and> n \<le> 57)
         \<or> c = CHR ''_'' \<or> c = CHR ''$'')"

definition nameMatch :: "string \<Rightarrow> (string \<times> string) option" where
  "nameMatch s = (case s of
       [] \<Rightarrow> None
     | c # cs \<Rightarrow>
         (let afterSpace = dropWhile isSpace cs;
              name = takeWhile isWordChar afterSpace;
              afterName = dropWhile isWordChar afterSpace
          in if (c = CHR ''{'' \<or> c = CHR '','') \<and> name \<noteq> [] then
               (case dropWhile isSpace afterName of
                  d # rest \<Rightarrow>
                    (if d = CHR '':'' then
                       Some (c # takeWhile isSpace cs @ [CHR 0x22] @ name @ [CHR 0x22]
                               @ takeWhile isSpace afterName @ [d], rest)
                     else None)
                | [] \<Rightarrow> None)
             else None))"

function quoteNames :: "string \<Rightarrow> string" where
  "quoteNames [] = []"
| "quoteNames (c # cs) =
     (case nameMatch (c # cs) of
        Some (out, rest) \<Rightarrow> out @ quoteNames rest
      | None \<Rightarrow> c # quoteNames cs)"
  by pat_completeness auto
termination
proof (relation "measure length")
  show "wf (measure length)" by simp
next
  fix c cs x2 x y
  assume "nameMatch (c # cs) = Some x2" and "(x, y) = x2"
  then have m: "nameMatch (c # cs) = Some (x, y)" by simp
  have "length (dropWhile isSpace (dropWhile isWordChar (dropWhile isSpace cs))) \<le> length cs"
    by (meson length_dropWhile_le order_trans)
  moreover from m obtain d where
    "dropWhile isSpace (dropWhile isWordChar (dropWhile isSpace cs)) = d # y"
    by (auto simp: nameMatch_def Let_def split: list.splits if_splits)
  ultimately have "length y < length (c # cs)" by simp
  then show "(y, c # cs) \<in> measure length" by simp
next
  fix c :: char and cs :: string
  show "(cs, c # cs) \<in> measure length" by simp
qed

text \<open>\<^verbatim>\<open>.replace(/,(\s*[}\]])/g, '$1')\<close>\<close>

definition commaMatch :: "string \<Rightarrow> (string \<times> string) option" where
  "commaMatch s = (case s of
       [] \<Rightarrow> None
     | c # cs \<Rightarrow>
         (if c = CHR '','' then
            (case dropWhile isSpace cs of
               d # rest \<Rightarrow>
                 (if d = CHR ''}'' \<or> d = CHR '']'' then Some (takeWhile isSpace cs @ [d], rest)
                  else None)
             | [] \<Rightarrow> None)
          else None))"

function dropTrailingCommas :: "string \<Rightarrow> string" where
  "dropTrailingCommas [] = []"
| "dropTrailingCommas (c # cs) =
     (case commaMatch (c # cs) of
        Some (out, rest) \<Rightarrow> out @ dropTrailingCommas rest
      | None \<Rightarrow> c # dropTrailingCommas cs)"
  by pat_completeness auto
termination
proof (relation "measure length")
  show "wf (measure length)" by simp
next
  fix c cs x2 x y
  assume "commaMatch (c # cs) = Some x2" and "(x, y) = x2"
  then have m: "commaMatch (c # cs) = Some (x, y)" by simp
  have "length (dropWhile isSpace cs) \<le> length cs"
    by (rule length_dropWhile_le)
  moreover from m obtain d where "dropWhile isSpace cs = d # y"
    by (auto simp: commaMatch_def split: list.splits if_splits)
  ultimately have "length y < length (c # cs)" by simp
  then show "(y, c # cs) \<in> measure length" by simp
next
  fix c :: char and cs :: string
  show "(cs, c # cs) \<in> measure length" by simp
qed

text \<open>The two counting loops and the two appending loops (lines 35 to 51).\<close>

definition balance :: "string \<Rightarrow> string" where
  "balance s =
     (let braceCount = int (count_list s CHR ''{'') - int (count_list s CHR ''}'');
          bracketCount = int (count_list s CHR ''['') - int (count_list s CHR '']'')
      in s @ replicate (nat braceCount) CHR ''}'' @ replicate (nat bracketCount) CHR '']'')"

definition sanitize :: "string \<Rightarrow> string" where
  "sanitize s =
     balance (dropTrailingCommas (quoteNames
       (doubleEscape CHR ''t'' (doubleEscape CHR ''n'' (doubleStrayBackslashes s)))))"

text \<open>The longest run of the group, and the text after it.\<close>

fun greedyRun :: "string \<Rightarrow> string \<times> string" where
  "greedyRun [] = ([], [])"
| "greedyRun [c] = (if c \<noteq> CHR 0x22 \<and> c \<noteq> CHR 0x5C then ([c], []) else ([], [c]))"
| "greedyRun (c # d # cs) =
     (if c \<noteq> CHR 0x22 \<and> c \<noteq> CHR 0x5C then
        (c # fst (greedyRun (d # cs)), snd (greedyRun (d # cs)))
      else if c = CHR 0x5C \<and> \<not> isLineTerminator d then
        (c # d # fst (greedyRun cs), snd (greedyRun cs))
      else ([], c # d # cs))"

definition quotedTextHere :: "string \<Rightarrow> string option" where
  "quotedTextHere s =
     (if startsWith s ''\"text\"'' then
        (case dropWhile isSpace (drop 6 s) of
           c # r \<Rightarrow>
             (if c = CHR '':'' then
                (case dropWhile isSpace r of
                   q # body \<Rightarrow>
                     (if q = CHR 0x22 \<and> startsWith (snd (greedyRun body)) [CHR 0x22]
                      then Some (fst (greedyRun body)) else None)
                 | [] \<Rightarrow> None)
              else None)
         | [] \<Rightarrow> None)
      else None)"

fun quotedText :: "string \<Rightarrow> string option" where
  "quotedText [] = quotedTextHere []"
| "quotedText (c # cs) =
     (case quotedTextHere (c # cs) of Some m \<Rightarrow> Some m | None \<Rightarrow> quotedText cs)"

definition sanitizeJsonString_balancing :: "(string \<Rightarrow> jserror + jsval) \<Rightarrow> jsval \<Rightarrow> jserror + jsval" where
  "sanitizeJsonString_balancing parse jsonString =
     (case jsonString of
        JStr s \<Rightarrow>
          (case parse s of
             Inr v \<Rightarrow> Inr v
           | Inl error \<Rightarrow>
               (case parse (sanitize s) of
                  Inr v \<Rightarrow> Inr v
                | Inl secondError \<Rightarrow>
                    (case quotedText s of
                       Some (c # cs) \<Rightarrow>
                         Inr (JObj [(''text'', JStr (replaceEscaped CHR 0x22 CHR 0x22 (c # cs)))])
                     | _ \<Rightarrow>
                         Inr (JObj [(''text'', JStr
                           ''Error: Could not parse AI response. Please try again with a simpler request.'')]))))
      | _ \<Rightarrow> Inr jsonString)"

section \<open>The project screen (screens/Project.jsx)\<close>

subsection \<open>Direct commands in a chat message (lines 533 to 565)\<close>

datatype directive = CreateReactApp | CreateExpressServer

text \<open>The tests that the message handler makes on \<^verbatim>\<open>lowerMsg\<close>, in the order of the
  source, and the command each of them starts. The handler itself is \<open>onProjectMessage\<close>
  below; \<open>handler_direct_command\<close> shows that it dispatches by these tests.\<close>

definition directCommand :: "string \<Rightarrow> directive option" where
  "directCommand lowerMsg =
     (if includesStr lowerMsg ''@ai create react app'' then Some CreateReactApp
      else if includesStr lowerMsg ''@ai create express server''
              \<or> includesStr lowerMsg ''@ai create an express server''
           then Some CreateExpressServer
      else None)"

text \<open>The directive of a message text: none for a message of the assistant, whose sender
  has the id \<^verbatim>\<open>ai\<close> (line 534).\<close>

definition recognize :: "bool \<Rightarrow> string \<Rightarrow> directive option" where
  "recognize senderIsAutomated rawText =
     (if senderIsAutomated then None else directCommand (toLowerCase rawText))"

text \<open>
  The recognizer as the specification words it: the phrase occurs in the text at some
  place when case is ignored, the phrases are tried in a fixed order and the first that
  occurs decides.
\<close>

fun occursIgnoringCase :: "string \<Rightarrow> string \<Rightarrow> bool" where
  "occursIgnoringCase phrase [] = (phrase = [])"
| "occursIgnoringCase phrase (c # cs) =
     (toLowerCase (take (length phrase) (c # cs)) = phrase \<or> occursIgnoringCase phrase cs)"

definition triggerPhrases :: "(string \<times> directive) list" where
  "triggerPhrases =
     [(''@ai create react app'', CreateReactApp),
      (''@ai create express server'', CreateExpressServer),
      (''@ai create an express server'', CreateExpressServer)]"

definition recognizeSpec :: "bool \<Rightarrow> string \<Rightarrow> directive option" where
  "recognizeSpec senderIsAutomated rawText =
     (if senderIsAutomated then None
      else map_option snd
             (find (\<lambda>entry. occursIgnoringCase (fst entry) rawText) triggerPhrases))"

subsection \<open>State\<close>

text \<open>A message on the wire; \<open>sender_id\<close> is the field \<^verbatim>\<open>_id\<close>.\<close>

record sender =
  sender_id :: string
  email :: string

record wireMessage =
  sender :: sender
  message :: jsval

text \<open>The assistant's own notes are appended as messages whose text is fixed by the
  source; they are kept here by what they say.\<close>

datatype entry =
    Incoming wireMessage
  | Thinking directive
  | Created directive
  | CreateFailed directive string

text \<open>Who called \<^verbatim>\<open>webContainer.mount\<close>: the message handler (line 587) or a template
  (lines 312 and 483). The two attach different callbacks to the promise.\<close>

datatype origin = FromMessage | FromTemplate directive

datatype outcome = Fulfilled | Rejected string

text \<open>The React state that the claims are about, the sandbox handle, and the promises of
  \<^verbatim>\<open>webContainer.mount\<close> that have not settled, in the order of the calls. The field
  \<open>webContainer\<close> is the state of that name; the message handler does not read it, but the
  value it captured (see below).\<close>

record project =
  messages :: "entry list"
  fileTree :: jsval
  webContainer :: bool
  mounts :: "(origin \<times> jsval) list"

definition initialProject :: project where
  "initialProject = \<lparr>messages = [], fileTree = JObj [], webContainer = True, mounts = []\<rparr>"

text \<open>The two template trees (the literals of lines 218 to 309 and 343 to 480) are
  arguments: nothing below depends on what they contain.\<close>

record templates =
  basicReactApp :: jsval
  expressApp :: jsval

definition templateOf :: "templates \<Rightarrow> directive \<Rightarrow> jsval" where
  "templateOf tpl d = (case d of
       CreateReactApp \<Rightarrow> basicReactApp tpl
     | CreateExpressServer \<Rightarrow> expressApp tpl)"

subsection \<open>Mounting a tree and setting it when the mount is done\<close>

text \<open>\<^verbatim>\<open>webContainer.mount(tree).then(...).catch(...)\<close>: the call returns at once with a
  promise; the state changes only when the promise settles.\<close>

definition mountTree :: "origin \<Rightarrow> jsval \<Rightarrow> project \<Rightarrow> project" where
  "mountTree orig tree st = st\<lparr>mounts := mounts st @ [(orig, tree)]\<rparr>"

text \<open>
  \<^verbatim>\<open>createReactApp\<close> and \<^verbatim>\<open>createExpressApp\<close> (lines 211 to 333 and 336 to 504) differ
  by the template and by the texts of their notes only. Without a sandbox they log an
  error and return.

  These functions and the message handler are closures of a render. The handler is
  registered by the effect of lines 506 to 622, which runs when \<^verbatim>\<open>project._id\<close> changes;
  it and the functions it calls see the \<^verbatim>\<open>webContainer\<close> of the render in which the effect
  ran, which is \<^verbatim>\<open>null\<close> on the first render. That captured value is the argument
  \<open>sandbox\<close>: true when it is a sandbox, false when it is \<^verbatim>\<open>null\<close>.
\<close>

definition createApp :: "templates \<Rightarrow> bool \<Rightarrow> directive \<Rightarrow> project \<Rightarrow> project" where
  "createApp tpl sandbox d st =
     (if \<not> sandbox then st
      else mountTree (FromTemplate d) (templateOf tpl d) st)"

definition createReactApp :: "templates \<Rightarrow> bool \<Rightarrow> project \<Rightarrow> project" where
  "createReactApp tpl sandbox st = createApp tpl sandbox CreateReactApp st"

definition createExpressApp :: "templates \<Rightarrow> bool \<Rightarrow> project \<Rightarrow> project" where
  "createExpressApp tpl sandbox st = createApp tpl sandbox CreateExpressServer st"

text \<open>The promise at place \<open>i\<close> settles. Which promise settles next is the sandbox's choice:
  the code neither orders the settlements nor cancels a promise. On success the callback
  sets the tree it was created with (lines 314, 485, 588); on failure the tree is left
  alone.\<close>

definition mountSettled :: "nat \<Rightarrow> outcome \<Rightarrow> project \<Rightarrow> project" where
  "mountSettled i out st =
     (if i < length (mounts st) then
        (let st' = st\<lparr>mounts := take i (mounts st) @ drop (Suc i) (mounts st)\<rparr>;
             tree = snd (mounts st ! i)
         in case (fst (mounts st ! i), out) of
              (FromMessage, Fulfilled) \<Rightarrow> st'\<lparr>fileTree := tree\<rparr>
            | (FromMessage, Rejected err) \<Rightarrow> st'
            | (FromTemplate d, Fulfilled) \<Rightarrow>
                st'\<lparr>fileTree := tree, messages := messages st' @ [Created d]\<rparr>
            | (FromTemplate d, Rejected err) \<Rightarrow>
                st'\<lparr>messages := messages st' @ [CreateFailed d err]\<rparr>)
      else st)"

subsection \<open>The handler of \<^verbatim>\<open>project-message\<close> (lines 530 to 602)\<close>

text \<open>What the handler reads off a decoded message (lines 578 and 586): the tree is only
  flagged, or the tree is there as an object. A decoded message is shown by its
  \<^verbatim>\<open>text\<close> (line 190), when that is a string.\<close>

definition flagsTree :: "jsval \<Rightarrow> bool" where
  "flagsTree msg = (optMember msg ''fileTree'' = JBool True)"

definition carriesTree :: "jsval \<Rightarrow> bool" where
  "carriesTree msg =
     (truthy (optMember msg ''fileTree'') \<and> typeof (optMember msg ''fileTree'') = ''object'')"

definition hasText :: "jsval \<Rightarrow> bool" where
  "hasText msg = (case optMember msg ''text'' of JStr body \<Rightarrow> True | _ \<Rightarrow> False)"

definition appendMessage :: "wireMessage \<Rightarrow> project \<Rightarrow> project" where
  "appendMessage data st = st\<lparr>messages := messages st @ [Incoming data]\<rparr>"

text \<open>The body of the \<^verbatim>\<open>try\<close> of lines 573 to 594 up to the final append.
  \<^verbatim>\<open>data.message.toLowerCase()\<close> is a TypeError when the message is not a string.\<close>

definition aiMessage ::
  "templates \<Rightarrow> (string \<Rightarrow> jserror + jsval) \<Rightarrow> bool \<Rightarrow> wireMessage \<Rightarrow> project
     \<Rightarrow> jserror + project" where
  "aiMessage tpl parse sandbox data st =
     (case sanitizeJsonString parse (message data) of
        Inl e \<Rightarrow> Inl e
      | Inr msg \<Rightarrow>
          (if flagsTree msg then
             (case message data of
                JStr raw \<Rightarrow>
                  (if includesStr (toLowerCase raw) ''react''
                     then Inr (createReactApp tpl sandbox st)
                   else if includesStr (toLowerCase raw) ''express''
                     then Inr (createExpressApp tpl sandbox st)
                   else Inr st)
              | _ \<Rightarrow> Inl TypeError)
           else if sandbox \<and> carriesTree msg
             then Inr (mountTree FromMessage (optMember msg ''fileTree'') st)
           else Inr st))"

definition onProjectMessage ::
  "templates \<Rightarrow> (string \<Rightarrow> jserror + jsval) \<Rightarrow> bool \<Rightarrow> wireMessage \<Rightarrow> project
     \<Rightarrow> project" where
  "onProjectMessage tpl parse sandbox data st =
     (if sender_id (sender data) \<noteq> ''ai'' \<and> typeof (message data) = ''string'' then
        (let lowerMsg = toLowerCase (case message data of JStr m \<Rightarrow> m | _ \<Rightarrow> [])
         in if includesStr lowerMsg ''@ai create react app'' then
              createReactApp tpl sandbox
                (st\<lparr>messages := messages st @ [Incoming data, Thinking CreateReactApp]\<rparr>)
            else if includesStr lowerMsg ''@ai create express server''
                    \<or> includesStr lowerMsg ''@ai create an express server'' then
              createExpressApp tpl sandbox
                (st\<lparr>messages := messages st @ [Incoming data, Thinking CreateExpressServer]\<rparr>)
            else appendMessage data st)
      else if sender_id (sender data) = ''ai'' then
        (case aiMessage tpl parse sandbox data st of
           Inr st' \<Rightarrow> appendMessage data st'
         | Inl error \<Rightarrow> appendMessage data st)
      else appendMessage data st)"

subsection \<open>Editing the open file (the \<^verbatim>\<open>onBlur\<close> handler, lines 806 to 840)\<close>

fun showNat :: "nat \<Rightarrow> string" where
  "showNat n =
     (if n < 10 then [char_of (48 + n)]
      else showNat (n div 10) @ [char_of (48 + n mod 10)])"

text \<open>\<^verbatim>\<open>{...v}\<close> copies the own enumerable properties of \<open>v\<close>: those of an object, the
  elements of an array and the characters of a string under their indices, nothing for
  another value.\<close>

definition spread :: "jsval \<Rightarrow> (string \<times> jsval) list" where
  "spread v = (case v of
       JObj ps \<Rightarrow> ps
     | JArr xs \<Rightarrow> zip (map showNat [0 ..< length xs]) xs
     | JStr s \<Rightarrow> zip (map showNat [0 ..< length s]) (map (\<lambda>c. JStr [c]) s)
     | _ \<Rightarrow> [])"

text \<open>\<^verbatim>\<open>v[key]\<close> for a computed name: an own property first (for an array and a string
  the length and the elements), then what the value inherits, else \<^verbatim>\<open>undefined\<close>.\<close>

definition inheritedProp :: "prototypes \<Rightarrow> jsval \<Rightarrow> string \<Rightarrow> jsval" where
  "inheritedProp builtin v key =
     (case (case v of JObj ps \<Rightarrow> objectPrototype key | _ \<Rightarrow> builtin v key) of
        Some w \<Rightarrow> w
      | None \<Rightarrow> JUndefined)"

definition ownOrInherited ::
  "prototypes \<Rightarrow> jsval \<Rightarrow> (string \<times> jsval) list \<Rightarrow> string \<Rightarrow> jsval" where
  "ownOrInherited builtin v ps key =
     (case map_of ps key of Some w \<Rightarrow> w | None \<Rightarrow> inheritedProp builtin v key)"

definition element :: "prototypes \<Rightarrow> jsval \<Rightarrow> string \<Rightarrow> jserror + jsval" where
  "element builtin v key = (case v of
       JUndefined \<Rightarrow> Inl TypeError
     | JNull \<Rightarrow> Inl TypeError
     | JObj ps \<Rightarrow> Inr (ownOrInherited builtin v ps key)
     | JArr xs \<Rightarrow>
         Inr (if key = ''length'' then JNum (showNat (length xs))
              else ownOrInherited builtin v (spread v) key)
     | JStr s \<Rightarrow>
         Inr (if key = ''length'' then JNum (showNat (length s))
              else ownOrInherited builtin v (spread v) key)
     | _ \<Rightarrow> Inr (inheritedProp builtin v key))"

definition fileNode :: "string \<Rightarrow> jsval" where
  "fileNode contents = JObj [(''file'', JObj [(''contents'', JStr contents)])]"

text \<open>
  The tree that the handler builds and passes to \<^verbatim>\<open>setFileTree\<close> and \<^verbatim>\<open>saveFileTree\<close>,
  or the exception that ends the handler before either call. The object literal is
  evaluated from the outside in: \<^verbatim>\<open>fileTree[dir]\<close> is read and spread, then
  \<^verbatim>\<open>fileTree[dir].directory\<close> is read and spread. The destructuring of line 810 takes the
  first two segments of the path; a path with a slash has at least two, so the last case
  of the segments is never reached (\<open>split_two_segments\<close> below).
\<close>

definition editedTree :: "prototypes \<Rightarrow> jsval \<Rightarrow> string \<Rightarrow> string \<Rightarrow> jserror + jsval" where
  "editedTree builtin tree currentFile updatedContent =
     (if includesStr currentFile ''/'' then
        (case split currentFile CHR ''/'' of
           dir # file # _ \<Rightarrow>
             (case element builtin tree dir of
                Inl e \<Rightarrow> Inl e
              | Inr node \<Rightarrow>
                  (case member node ''directory'' of
                     Inl e \<Rightarrow> Inl e
                   | Inr entries \<Rightarrow>
                       Inr (JObj (setProp dir
                              (JObj (setProp ''directory''
                                 (JObj (setProp file (fileNode updatedContent) (spread entries)))
                                 (spread node)))
                              (spread tree)))))
         | _ \<Rightarrow> Inl TypeError)
      else Inr (JObj (setProp currentFile (fileNode updatedContent) (spread tree))))"

text \<open>A small tree, for examples.\<close>

definition sampleTree :: "(string \<times> jsval) list" where
  "sampleTree =
     [(''package.json'', JObj [(''file'', JObj [(''contents'', JStr ''{}'')])]),
      (''src'', JObj [(''directory'',
          JObj [(''index.js'', JObj [(''file'', JObj [(''contents'', JStr ''render()'')])]),
                (''App.js'', JObj [(''file'', JObj [(''contents'', JStr ''old'')])])])])]"

text \<open>The handler as a change of the state: the new tree is set, and an exception leaves
  the state as it was.\<close>

definition editFile :: "prototypes \<Rightarrow> string \<Rightarrow> string \<Rightarrow> project \<Rightarrow> jserror + project" where
  "editFile builtin path newContents st =
     (case editedTree builtin (fileTree st) path newContents of
        Inl e \<Rightarrow> Inl e
      | Inr ft \<Rightarrow> Inr (st\<lparr>fileTree := ft\<rparr>))"

text \<open>
  The sibling reader \<^verbatim>\<open>getCurrentFileContent\<close> (lines 904 to 918). It reads the same
  path with every step guarded by \<^verbatim>\<open>?.\<close>, and gives the empty text when there is no
  current file or nothing truthy at the path, and else what the highlighter makes of the
  contents. The highlighter is a library; it is the argument \<open>highlight\<close>, which may throw.
\<close>

definition contentsAt :: "prototypes \<Rightarrow> jsval \<Rightarrow> string \<Rightarrow> jserror + jsval" where
  "contentsAt builtin tree currentFile =
     (if includesStr currentFile ''/'' then
        (case split currentFile CHR ''/'' of
           dir # file # _ \<Rightarrow>
             (case element builtin tree dir of
                Inl e \<Rightarrow> Inl e
              | Inr node \<Rightarrow>
                  (case optMember node ''directory'' of
                     JUndefined \<Rightarrow> Inr JUndefined
                   | JNull \<Rightarrow> Inr JUndefined
                   | entries \<Rightarrow>
                       (case element builtin entries file of
                          Inl e \<Rightarrow> Inl e
                        | Inr leaf \<Rightarrow> Inr (optMember (optMember leaf ''file'') ''contents''))))
         | _ \<Rightarrow> Inl TypeError)
      else (case element builtin tree currentFile of
              Inl e \<Rightarrow> Inl e
            | Inr leaf \<Rightarrow> Inr (optMember (optMember leaf ''file'') ''contents'')))"

definition getCurrentFileContent ::
  "(jsval \<Rightarrow> jserror + string) \<Rightarrow> prototypes \<Rightarrow> jsval \<Rightarrow> string \<Rightarrow> jserror + string" where
  "getCurrentFileContent highlight builtin tree currentFile =
     (if currentFile = [] then Inr []
      else (case contentsAt builtin tree currentFile of
              Inl e \<Rightarrow> Inl e
            | Inr content \<Rightarrow> if truthy content then highlight content else Inr []))"

section \<open>The channel module (config/socket.js)\<close>

definition MAX_RECONNECT_ATTEMPTS :: nat where
  "MAX_RECONNECT_ATTEMPTS = 5"

text \<open>The socket as the module sees it: whether it is connected, and the options it was
  created with. The retries themselves are made by the transport library, from the
  options.\<close>

record socketIO =
  connected :: bool
  reconnection :: bool
  reconnectionAttempts :: nat
  reconnectionDelay :: nat
  timeout :: nat
  listeners :: "string list"

record channel =
  socket :: "socketIO option"
  reconnectAttempts :: nat

definition initialChannel :: channel where
  "initialChannel = \<lparr>socket = None, reconnectAttempts = 0\<rparr>"

definition newSocket :: socketIO where
  "newSocket = \<lparr>connected = False, reconnection = True,
                reconnectionAttempts = MAX_RECONNECT_ATTEMPTS,
                reconnectionDelay = 2000, timeout = 30000, listeners = []\<rparr>"

text \<open>\<^verbatim>\<open>initializeSocket\<close>: the socket returned (none for an empty project id) and the new
  module state. A socket that exists is disconnected and replaced; the counter is not
  touched.\<close>

definition initializeSocket :: "string \<Rightarrow> channel \<Rightarrow> socketIO option \<times> channel" where
  "initializeSocket projectId ch =
     (if projectId = [] then (None, ch)
      else (Some newSocket, ch\<lparr>socket := Some newSocket\<rparr>))"

text \<open>The three listeners that \<^verbatim>\<open>initializeSocket\<close> registers. The library sets
  \<^verbatim>\<open>socket.connected\<close> before it calls them. A module without a socket has no listener.\<close>

definition onConnectError :: "channel \<Rightarrow> channel" where
  "onConnectError ch = (case socket ch of
       None \<Rightarrow> ch
     | Some s \<Rightarrow> ch\<lparr>reconnectAttempts := reconnectAttempts ch + 1\<rparr>)"

definition onConnect :: "channel \<Rightarrow> channel" where
  "onConnect ch = (case socket ch of
       None \<Rightarrow> ch
     | Some s \<Rightarrow> ch\<lparr>socket := Some (s\<lparr>connected := True\<rparr>), reconnectAttempts := 0\<rparr>)"

definition onDisconnect :: "channel \<Rightarrow> channel" where
  "onDisconnect ch = (case socket ch of
       None \<Rightarrow> ch
     | Some s \<Rightarrow> ch\<lparr>socket := Some (s\<lparr>connected := False\<rparr>)\<rparr>)"

definition sendMessage :: "channel \<Rightarrow> bool" where
  "sendMessage ch = (case socket ch of None \<Rightarrow> False | Some s \<Rightarrow> connected s)"

definition receiveMessage :: "string \<Rightarrow> channel \<Rightarrow> bool \<times> channel" where
  "receiveMessage event ch = (case socket ch of
       None \<Rightarrow> (False, ch)
     | Some s \<Rightarrow> (True, ch\<lparr>socket := Some (s\<lparr>listeners := listeners s @ [event]\<rparr>)\<rparr>))"

definition disconnect :: "channel \<Rightarrow> channel" where
  "disconnect ch = ch\<lparr>socket := None\<rparr>"

text \<open>\<^verbatim>\<open>retryConnection\<close> of the project screen (lines 652 to 659), the manual retry.\<close>

definition retryConnection :: "string \<Rightarrow> channel \<Rightarrow> channel" where
  "retryConnection projectId ch = snd (initializeSocket projectId (disconnect ch))"

text \<open>What can happen to the module, and a run of such events.\<close>

datatype channelEvent =
    Initialize string
  | ConnectError
  | Connect
  | Disconnect
  | Teardown
  | Retry string

fun channelStep :: "channel \<Rightarrow> channelEvent \<Rightarrow> channel" where
  "channelStep ch (Initialize projectId) = snd (initializeSocket projectId ch)"
| "channelStep ch ConnectError = onConnectError ch"
| "channelStep ch Connect = onConnect ch"
| "channelStep ch Disconnect = onDisconnect ch"
| "channelStep ch Teardown = disconnect ch"
| "channelStep ch (Retry projectId) = retryConnection projectId ch"

definition runChannel :: "channelEvent list \<Rightarrow> channel \<Rightarrow> channel" where
  "runChannel evs ch = foldl channelStep ch evs"

section \<open>Facts about the string methods and the parser\<close>

lemmas json_defs = JSON_parse_def lexStart_def jsonSpace_def isDigit_def lexEnd_def
  numComplete_def numNext_def startValue_def readKey_def closeObject_def closeArray_def
  escapeChar_def hexValue_def


lemmas view_defs = hasText_def flagsTree_def carriesTree_def optMember_def member_def
  ownProp_def truthy_def typeof_def

lemmas lower_defs = toLowerCase_def lowerChar_def char_of_def bit_Suc_0_iff

lemma startsWith_take: "startsWith s p \<longleftrightarrow> take (length p) s = p"
  by (induction s p rule: startsWith.induct) auto

lemma startsWith_append: "startsWith (p @ r) p"
  by (induction p) auto

lemma startsWith_includesStr: "startsWith s sub \<Longrightarrow> includesStr s sub"
  by (cases s; cases sub) auto

lemma includesStr_append: "includesStr (pre @ sub @ post) sub"
  by (induction pre) (auto simp: startsWith_append startsWith_includesStr)

lemma includesStr_subset: "includesStr s sub \<Longrightarrow> set sub \<subseteq> set s"
proof (induction s)
  case Nil
  then show ?case by simp
next
  case (Cons c cs)
  show ?case
  proof (cases "startsWith (c # cs) sub")
    case True
    then have "take (length sub) (c # cs) = sub"
      by (simp only: startsWith_take)
    then show ?thesis
      by (metis set_take_subset)
  next
    case False
    with Cons show ?thesis by auto
  qed
qed

lemma toLowerCase_append: "toLowerCase (a @ b) = toLowerCase a @ toLowerCase b"
  by (simp add: toLowerCase_def)

text \<open>Lowering the whole text and looking for the phrase is looking for the phrase with
  case ignored.\<close>

lemma includes_lower_occurs:
  "includesStr (toLowerCase t) phrase = occursIgnoringCase phrase t"
proof (induction t)
  case Nil
  show ?case by (simp add: toLowerCase_def)
next
  case (Cons c cs)
  have "startsWith (toLowerCase (c # cs)) phrase
        \<longleftrightarrow> toLowerCase (take (length phrase) (c # cs)) = phrase"
    unfolding startsWith_take toLowerCase_def take_map ..
  moreover have "toLowerCase (c # cs) = lowerChar c # toLowerCase cs"
    by (simp add: toLowerCase_def)
  ultimately show ?case using Cons.IH by simp
qed

lemma split_no_sep: "sep \<notin> set s \<Longrightarrow> split s sep = [s]"
  by (induction s) auto

lemma split_first: "sep \<notin> set a \<Longrightarrow> split (a @ sep # b) sep = a # split b sep"
  by (induction a) auto

lemma split_nonempty: "split s sep \<noteq> []"
  by (induction s) (auto split: list.splits)

lemma split_two_segments:
  "includesStr s [sep] \<Longrightarrow> \<exists>a b more. split s sep = a # b # more"
proof (induction s)
  case Nil
  then show ?case by simp
next
  case (Cons c cs)
  show ?case
  proof (cases "c = sep")
    case True
    then show ?thesis
      using split_nonempty [of cs sep] by (cases "split cs sep") auto
  next
    case False
    with Cons.prems have "includesStr cs [sep]"
      by simp
    then obtain a b more where "split cs sep = a # b # more"
      using Cons.IH by blast
    with False show ?thesis by simp
  qed
qed

lemma path_has_slash: "includesStr (dir @ ''/'' @ name) ''/''"
  using includesStr_append [of dir "''/''" name] by simp

lemma path_segments:
  assumes "CHR ''/'' \<notin> set dir" and "CHR ''/'' \<notin> set name"
  shows "split (dir @ ''/'' @ name) CHR ''/'' = [dir, name]"
  using split_first [OF assms(1), of name] split_no_sep [OF assms(2)] by simp

lemma map_of_setProp:
  "map_of (setProp k v ps) k' = (if k' = k then Some v else map_of ps k')"
  by (induction ps) auto

lemma keys_setProp: "map_of ps k = Some w \<Longrightarrow> map fst (setProp k v ps) = map fst ps"
  by (induction ps) (auto split: if_splits)





















lemma hasText_only_text: "hasText (JObj [(''text'', JStr body)])"
  by (simp add: view_defs)

lemma marker_notice:
  "templateMarker s \<Longrightarrow> sanitizeJsonString parse (JStr s) = Inr templateNotice"
  by (simp add: sanitizeJsonString_def)

lemma recover_text:
  assumes "\<not> templateMarker s" and "parse s = Inl err"
    and "textMatch s = Some body" and "body \<noteq> []"
  shows "sanitizeJsonString parse (JStr s) =
     Inr (JObj [(''text'', JStr (replaceEscaped CHR ''n'' CHR ''\<newline>''
                                  (replaceEscaped CHR 0x22 CHR 0x22 body)))])"
  using assms by (cases body) (simp_all add: sanitizeJsonString_def recover_def)

lemma recover_nothing:
  assumes "\<not> templateMarker s" and "parse s = Inl err"
    and "textMatch s = None \<or> textMatch s = Some []"
  shows "sanitizeJsonString parse (JStr s) =
     Inr (if includesStr s ''\"fileTree\"'' then fileTreeNotice else rawExcerpt s)"
  using assms by (auto simp: sanitizeJsonString_def recover_def)





section \<open>The decoder\<close>

text \<open>
  C1. Claim: for every string the decoder terminates, never raises and returns one of the
  four kinds of decoded content, so that every input yields text to display.

  The functions above are total and every exception is caught, in both versions. But when
  \<^verbatim>\<open>JSON.parse\<close> succeeds its value is returned as it is (line 30), and it need not be
  decoded content: for \<^verbatim>\<open>42\<close> both versions return the number 42, which has no
  \<^verbatim>\<open>text\<close>.
\<close>

theorem decode_number_counterexample:
  "sanitizeJsonString JSON_parse (JStr ''42'') = Inr (JNum ''42'')
   \<and> sanitizeJsonString_balancing JSON_parse (JStr ''42'') = Inr (JNum ''42'')
   \<and> \<not> hasText (JNum ''42'')"
  by (simp add: sanitizeJsonString_def sanitizeJsonString_balancing_def templateMarker_def
      json_defs view_defs)

text \<open>
  C1 as amended: for every string and whatever the parser does, the decoder returns
  without raising. The decoder of the project screen returns either the very value that
  \<^verbatim>\<open>JSON.parse\<close> produced for the string, which then has no template marker, or an object
  that is a string \<^verbatim>\<open>text\<close> alone or a string \<^verbatim>\<open>text\<close> with \<^verbatim>\<open>fileTree: true\<close>. The
  brace-balancing version returns either the value that \<^verbatim>\<open>JSON.parse\<close> produced for the
  string or for the repaired string, or an object that is a string \<^verbatim>\<open>text\<close> alone.
\<close>

theorem decode_total:
  "(\<exists>v. sanitizeJsonString parse (JStr s) = Inr v
        \<and> ((\<not> templateMarker s \<and> parse s = Inr v)
            \<or> (hasText v
                \<and> (\<exists>body. v = JObj [(''text'', JStr body)]
                         \<or> v = JObj [(''text'', JStr body), (''fileTree'', JBool True)]))))
   \<and> (\<exists>v. sanitizeJsonString_balancing parse (JStr s) = Inr v
        \<and> (parse s = Inr v \<or> parse (sanitize s) = Inr v
            \<or> (hasText v \<and> (\<exists>body. v = JObj [(''text'', JStr body)]))))"
proof -
  have notices: "hasText templateNotice" "hasText fileTreeNotice" "hasText (rawExcerpt s)"
    by (simp_all add: templateNotice_def fileTreeNotice_def rawExcerpt_def view_defs)
  have "\<exists>v. sanitizeJsonString parse (JStr s) = Inr v
        \<and> ((\<not> templateMarker s \<and> parse s = Inr v)
            \<or> (hasText v
                \<and> (\<exists>body. v = JObj [(''text'', JStr body)]
                         \<or> v = JObj [(''text'', JStr body), (''fileTree'', JBool True)])))"
  proof (cases "templateMarker s")
    case True
    then show ?thesis
      using notices(1) by (simp add: sanitizeJsonString_def) (simp add: templateNotice_def)
  next
    case False
    show ?thesis
    proof (cases "parse s")
      case (Inr v)
      with False show ?thesis by (simp add: sanitizeJsonString_def)
    next
      case (Inl err)
      show ?thesis
      proof (cases "textMatch s = None \<or> textMatch s = Some []")
        case True
        from recover_nothing [of s parse err, OF \<open>\<not> templateMarker s\<close> Inl True] notices(2,3)
        show ?thesis
          by (auto simp: fileTreeNotice_def rawExcerpt_def)
      next
        case False
        then obtain body where "textMatch s = Some body" "body \<noteq> []"
          by (cases "textMatch s") auto
        from recover_text [of s parse err body, OF \<open>\<not> templateMarker s\<close> Inl this]
        show ?thesis
          by (simp add: hasText_only_text)
      qed
    qed
  qed
  moreover have "\<exists>v. sanitizeJsonString_balancing parse (JStr s) = Inr v
        \<and> (parse s = Inr v \<or> parse (sanitize s) = Inr v
            \<or> (hasText v \<and> (\<exists>body. v = JObj [(''text'', JStr body)])))"
    by (simp add: sanitizeJsonString_balancing_def hasText_only_text
        split: sum.splits option.splits list.splits)
  ultimately show ?thesis by blast
qed

theorem decode_total_witness:
  "(\<exists>v. sanitizeJsonString JSON_parse (JStr ''garbage'') = Inr v
        \<and> ((\<not> templateMarker ''garbage'' \<and> JSON_parse ''garbage'' = Inr v)
            \<or> (hasText v
                \<and> (\<exists>body. v = JObj [(''text'', JStr body)]
                         \<or> v = JObj [(''text'', JStr body), (''fileTree'', JBool True)]))))
   \<and> (\<exists>v. sanitizeJsonString_balancing JSON_parse (JStr ''garbage'') = Inr v
        \<and> (JSON_parse ''garbage'' = Inr v \<or> JSON_parse (sanitize ''garbage'') = Inr v
            \<or> (hasText v \<and> (\<exists>body. v = JObj [(''text'', JStr body)]))))"
  using decode_total [of JSON_parse "''garbage''"] .

text \<open>
  C10. A value that is not a string is returned unchanged, without an exception, by both
  versions of the decoder.
\<close>

theorem decode_passthrough:
  "typeof v \<noteq> ''string'' \<Longrightarrow>
     sanitizeJsonString parse v = Inr v \<and> sanitizeJsonString_balancing parse v = Inr v"
  by (cases v) (simp_all add: typeof_def sanitizeJsonString_def sanitizeJsonString_balancing_def)

theorem decode_passthrough_witness:
  "typeof (JObj [(''fileTree'', JBool True)]) \<noteq> ''string''
   \<and> sanitizeJsonString JSON_parse (JObj [(''fileTree'', JBool True)])
       = Inr (JObj [(''fileTree'', JBool True)])
   \<and> sanitizeJsonString_balancing JSON_parse (JObj [(''fileTree'', JBool True)])
       = Inr (JObj [(''fileTree'', JBool True)])"
proof -
  have h: "typeof (JObj [(''fileTree'', JBool True)]) \<noteq> ''string''"
    by (simp add: typeof_def)
  from decode_passthrough [OF h, of JSON_parse] h show ?thesis by blast
qed

text \<open>
  C6. A text that contains \<^verbatim>\<open>"fileTree"\<close> in quotes together with \<^verbatim>\<open>react\<close> or
  \<^verbatim>\<open>package.json\<close> is answered by the fixed notice with the tree flag, at once: the
  result is the same whatever the parser would do with the text.
\<close>

theorem template_short_circuit:
  assumes "includesStr s ''\"fileTree\"''"
    and "includesStr s ''react'' \<or> includesStr s ''package.json''"
  shows "sanitizeJsonString parse (JStr s) =
    Inr (JObj [(''text'',
                JStr ''Creating React application files. Check the file explorer panel.''),
               (''fileTree'', JBool True)])"
  using assms by (simp add: sanitizeJsonString_def templateMarker_def templateNotice_def)

theorem template_short_circuit_witness:
  "includesStr ''{\"fileTree\":{}} react'' ''\"fileTree\"''
   \<and> (includesStr ''{\"fileTree\":{}} react'' ''react''
        \<or> includesStr ''{\"fileTree\":{}} react'' ''package.json'')
   \<and> JSON_parse ''{\"fileTree\":{}} react'' = Inl SyntaxError
   \<and> sanitizeJsonString JSON_parse (JStr ''{\"fileTree\":{}} react'') =
       Inr (JObj [(''text'',
                   JStr ''Creating React application files. Check the file explorer panel.''),
                  (''fileTree'', JBool True)])"
proof -
  have h1: "includesStr ''{\"fileTree\":{}} react'' ''\"fileTree\"''"
    by simp
  have h2: "includesStr ''{\"fileTree\":{}} react'' ''react''
        \<or> includesStr ''{\"fileTree\":{}} react'' ''package.json''"
    by simp
  have p: "JSON_parse ''{\"fileTree\":{}} react'' = Inl SyntaxError"
    by (simp add: json_defs)
  from template_short_circuit [OF h1 h2, of JSON_parse] h1 h2 p show ?thesis
    by blast
qed

text \<open>
  C9. For a text with the marker and a template keyword the decoder never returns a message
  that carries a tree: the tree is only flagged, also when the text is well-formed JSON
  whose \<^verbatim>\<open>fileTree\<close> is a complete map.
\<close>

theorem template_never_tree:
  assumes "includesStr s ''\"fileTree\"''"
    and "includesStr s ''react'' \<or> includesStr s ''package.json''"
  shows "\<exists>v. sanitizeJsonString parse (JStr s) = Inr v \<and> flagsTree v \<and> \<not> carriesTree v"
proof -
  have "templateMarker s"
    using assms by (simp add: templateMarker_def)
  then have "sanitizeJsonString parse (JStr s) = Inr templateNotice"
    by (rule marker_notice)
  moreover have "flagsTree templateNotice \<and> \<not> carriesTree templateNotice"
    by (simp add: templateNotice_def view_defs)
  ultimately show ?thesis by blast
qed

text \<open>The witness is a well-formed payload: parsed, it would carry its tree.\<close>

theorem template_never_tree_witness:
  "includesStr ''{\"text\":\"ok\",\"fileTree\":{\"package.json\":{\"file\":{\"contents\":\"{}\"}}}}''
       ''\"fileTree\"''
   \<and> (includesStr ''{\"text\":\"ok\",\"fileTree\":{\"package.json\":{\"file\":{\"contents\":\"{}\"}}}}''
         ''react''
       \<or> includesStr ''{\"text\":\"ok\",\"fileTree\":{\"package.json\":{\"file\":{\"contents\":\"{}\"}}}}''
         ''package.json'')
   \<and> JSON_parse ''{\"text\":\"ok\",\"fileTree\":{\"package.json\":{\"file\":{\"contents\":\"{}\"}}}}''
       = Inr (JObj [(''text'', JStr ''ok''),
                    (''fileTree'', JObj [(''package.json'', fileNode ''{}'')])])
   \<and> carriesTree (JObj [(''text'', JStr ''ok''),
                        (''fileTree'', JObj [(''package.json'', fileNode ''{}'')])])
   \<and> (\<exists>v. sanitizeJsonString JSON_parse
         (JStr ''{\"text\":\"ok\",\"fileTree\":{\"package.json\":{\"file\":{\"contents\":\"{}\"}}}}'')
           = Inr v \<and> flagsTree v \<and> \<not> carriesTree v)"
proof -
  let ?s = "''{\"text\":\"ok\",\"fileTree\":{\"package.json\":{\"file\":{\"contents\":\"{}\"}}}}''"
  have h1: "includesStr ?s ''\"fileTree\"''"
    by simp
  have h2: "includesStr ?s ''react'' \<or> includesStr ?s ''package.json''"
    by simp
  have p: "JSON_parse ?s = Inr (JObj [(''text'', JStr ''ok''),
                    (''fileTree'', JObj [(''package.json'', fileNode ''{}'')])])"
    by (simp add: json_defs fileNode_def)
  have c: "carriesTree (JObj [(''text'', JStr ''ok''),
                        (''fileTree'', JObj [(''package.json'', fileNode ''{}'')])])"
    by (simp add: view_defs)
  from template_never_tree [OF h1 h2, of JSON_parse] h1 h2 p c show ?thesis
    by blast
qed




section \<open>Direct commands\<close>

text \<open>
  C8. For a message that is not the assistant's, the recognizer matches the text against the
  fixed phrases as substrings with case ignored, the first phrase that occurs deciding, and
  gives no directive when none occurs: it is the recognizer of the specification. A phrase
  written in any case, with any text before and after it, gives its directive; so does
  \<^verbatim>\<open>please @ai create react app now\<close>.
\<close>

theorem recognize_case_insensitive:
  "recognize automated text = recognizeSpec automated text
   \<and> (toLowerCase p = ''@ai create react app''
        \<longrightarrow> recognize False (pre @ p @ post) = Some CreateReactApp)"
proof -
  have "recognize automated text = recognizeSpec automated text"
    by (simp add: recognize_def recognizeSpec_def directCommand_def triggerPhrases_def
        includes_lower_occurs)
  moreover have "recognize False (pre @ p @ post) = Some CreateReactApp"
    if "toLowerCase p = ''@ai create react app''"
    using includesStr_append [of "toLowerCase pre" "''@ai create react app''" "toLowerCase post"]
      that
    by (simp add: recognize_def directCommand_def toLowerCase_append del: includesStr.simps)
  ultimately show ?thesis by blast
qed

theorem recognize_case_insensitive_witness:
  "recognize False ''please @ai create react app now'' = Some CreateReactApp
   \<and> toLowerCase ''@AI Create React App'' = ''@ai create react app''
   \<and> recognize False (''Please '' @ ''@AI Create React App'' @ '' now'') = Some CreateReactApp"
proof -
  have spec: "recognizeSpec False ''please @ai create react app now'' = Some CreateReactApp"
    by (simp add: recognizeSpec_def triggerPhrases_def lower_defs)
  have low: "toLowerCase ''@AI Create React App'' = ''@ai create react app''"
    by (simp add: lower_defs)
  from recognize_case_insensitive [of False "''please @ai create react app now''"
      "''@AI Create React App''" "''Please ''" "'' now''"] spec low
  show ?thesis by simp
qed

text \<open>A text without any of the phrases gives no directive, and neither does a message of
  the assistant.\<close>

lemma recognize_none:
  "recognize False ''hello there'' = None
   \<and> recognize True ''@ai create react app'' = None"
  by (simp add: recognize_def directCommand_def lower_defs)

text \<open>In the handler, a message of a user is dispatched by this directive: the message
  and the assistant's note are appended and the template is created.\<close>

lemma handler_direct_command:
  assumes "sender_id (sender data) \<noteq> ''ai''" and "message data = JStr m"
  shows "onProjectMessage tpl parse sandbox data st =
     (case recognize False m of
        Some d \<Rightarrow>
          createApp tpl sandbox d (st\<lparr>messages := messages st @ [Incoming data, Thinking d]\<rparr>)
      | None \<Rightarrow> appendMessage data st)"
  using assms
  by (simp add: onProjectMessage_def recognize_def directCommand_def typeof_def
      createReactApp_def createExpressApp_def)

section \<open>Editing a file of the tree\<close>

text \<open>
  C5. In a tree that has the directory \<open>dir\<close>, editing \<open>dir/name\<close> succeeds and sets the
  contents of that one file: in the new tree \<open>dir\<close> is a node whose directory holds, under
  \<open>name\<close>, a file whose contents are the new text; every other entry of the directory,
  every other property of the node and every other entry of the root is what it was, and
  the root has the same names in the same order. The rest of the state is untouched. (The
  leaf need not exist before: the edit then adds it.) This holds whatever the values of
  the language inherit.
\<close>

theorem editFile_updates_one_leaf:
  assumes tree: "fileTree st = JObj root"
    and dir: "map_of root dir = Some (JObj node)"
    and entries: "map_of node ''directory'' = Some (JObj files)"
    and segs: "CHR ''/'' \<notin> set dir" "CHR ''/'' \<notin> set name"
  shows "\<exists>root' node' files'.
      editFile builtin (dir @ ''/'' @ name) newContents st = Inr (st\<lparr>fileTree := JObj root'\<rparr>)
    \<and> map_of root' dir = Some (JObj node')
    \<and> map_of node' ''directory'' = Some (JObj files')
    \<and> map_of files' name = Some (JObj [(''file'', JObj [(''contents'', JStr newContents)])])
    \<and> (\<forall>k. k \<noteq> name \<longrightarrow> map_of files' k = map_of files k)
    \<and> (\<forall>k. k \<noteq> ''directory'' \<longrightarrow> map_of node' k = map_of node k)
    \<and> (\<forall>k. k \<noteq> dir \<longrightarrow> map_of root' k = map_of root k)
    \<and> map fst root' = map fst root"
proof -
  let ?leaf = "JObj [(''file'', JObj [(''contents'', JStr newContents)])]"
  let ?files' = "setProp name ?leaf files"
  let ?node' = "setProp ''directory'' (JObj ?files') node"
  let ?root' = "setProp dir (JObj ?node') root"
  have "editedTree builtin (JObj root) (dir @ ''/'' @ name) newContents = Inr (JObj ?root')"
    unfolding editedTree_def path_segments [OF segs]
    using path_has_slash [of dir name] dir entries
    by (simp add: element_def ownOrInherited_def member_def ownProp_def spread_def
        fileNode_def del: includesStr.simps)
  then have "editFile builtin (dir @ ''/'' @ name) newContents st
      = Inr (st\<lparr>fileTree := JObj ?root'\<rparr>)"
    by (simp add: editFile_def tree)
  moreover have "map fst ?root' = map fst root"
    using dir by (rule keys_setProp)
  ultimately show ?thesis
    by (auto simp: map_of_setProp simp del: setProp.simps)
qed

theorem editFile_updates_one_leaf_witness:
  "fileTree (initialProject\<lparr>fileTree := JObj sampleTree\<rparr>) = JObj sampleTree
   \<and> map_of sampleTree ''src'' =
       Some (JObj [(''directory'',
          JObj [(''index.js'', JObj [(''file'', JObj [(''contents'', JStr ''render()'')])]),
                (''App.js'', JObj [(''file'', JObj [(''contents'', JStr ''old'')])])])])
   \<and> CHR ''/'' \<notin> set ''src'' \<and> CHR ''/'' \<notin> set ''App.js''
   \<and> editFile (\<lambda>v key. None) ''src/App.js'' ''new''
        (initialProject\<lparr>fileTree := JObj sampleTree\<rparr>) =
       Inr (initialProject\<lparr>fileTree := JObj
         [(''package.json'', JObj [(''file'', JObj [(''contents'', JStr ''{}'')])]),
          (''src'', JObj [(''directory'',
             JObj [(''index.js'', JObj [(''file'', JObj [(''contents'', JStr ''render()'')])]),
                   (''App.js'', JObj [(''file'', JObj [(''contents'', JStr ''new'')])])])])]\<rparr>)"
proof -
  let ?st = "initialProject\<lparr>fileTree := JObj sampleTree\<rparr>"
  let ?files = "[(''index.js'', JObj [(''file'', JObj [(''contents'', JStr ''render()'')])]),
                (''App.js'', JObj [(''file'', JObj [(''contents'', JStr ''old'')])])]"
  let ?node = "[(''directory'', JObj ?files)]"
  have h1: "fileTree ?st = JObj sampleTree"
    by simp
  have h2: "map_of sampleTree ''src'' = Some (JObj ?node)"
    by (simp add: sampleTree_def)
  have h3: "map_of ?node ''directory'' = Some (JObj ?files)"
    by simp
  have h4: "CHR ''/'' \<notin> set ''src''" and h5: "CHR ''/'' \<notin> set ''App.js''"
    by simp_all
  from editFile_updates_one_leaf [OF h1 h2 h3 h4 h5, of "\<lambda>v key. None" "''new''"]
  obtain root' where "editFile (\<lambda>v key. None) (''src'' @ ''/'' @ ''App.js'') ''new'' ?st
      = Inr (?st\<lparr>fileTree := JObj root'\<rparr>)"
    by blast
  moreover have "editFile (\<lambda>v key. None) ''src/App.js'' ''new'' ?st =
       Inr (initialProject\<lparr>fileTree := JObj
         [(''package.json'', JObj [(''file'', JObj [(''contents'', JStr ''{}'')])]),
          (''src'', JObj [(''directory'',
             JObj [(''index.js'', JObj [(''file'', JObj [(''contents'', JStr ''render()'')])]),
                   (''App.js'', JObj [(''file'', JObj [(''contents'', JStr ''new'')])])])])]\<rparr>)"
    by (simp add: editFile_def editedTree_def element_def ownOrInherited_def member_def
        ownProp_def spread_def sampleTree_def initialProject_def fileNode_def)
  ultimately show ?thesis using h1 h2 h4 h5 by simp
qed

text \<open>
  C3. Claim: editing \<open>dir/name\<close> in a tree without the directory \<open>dir\<close> returns a path
  error, without throwing, and leaves the tree unchanged.

  The handler reads \<^verbatim>\<open>fileTree[dir].directory\<close> unguarded (line 816). With the file
  \<^verbatim>\<open>src/App.js\<close> open and a tree that has no \<^verbatim>\<open>src\<close>, as after the Express template has
  replaced the React one, \<^verbatim>\<open>fileTree[dir]\<close> is \<^verbatim>\<open>undefined\<close> and the read throws a
  TypeError: the handler ends by an exception, before \<^verbatim>\<open>setFileTree\<close>, and reports
  nothing. The reader of the same path, \<^verbatim>\<open>getCurrentFileContent\<close>, guards every step with
  \<^verbatim>\<open>?.\<close> and gives the empty text there. When \<open>dir\<close> is a file, the handler does not
  fail either: it gives the file node a directory.
\<close>

theorem editFile_missing_directory_throws:
  "editFile builtin ''src/App.js'' ''x''
     (initialProject\<lparr>fileTree :=
        JObj [(''app.js'', JObj [(''file'', JObj [(''contents'', JStr ''y'')])])]\<rparr>)
     = Inl TypeError
   \<and> getCurrentFileContent highlight builtin
       (JObj [(''app.js'', JObj [(''file'', JObj [(''contents'', JStr ''y'')])])]) ''src/App.js''
     = Inr []
   \<and> editedTree builtin (JObj [(''src'', JObj [(''file'', JObj [(''contents'', JStr ''y'')])])])
       ''src/App.js'' ''x''
     = Inr (JObj [(''src'', JObj [(''file'', JObj [(''contents'', JStr ''y'')]),
                                  (''directory'', JObj [(''App.js'',
                                     JObj [(''file'', JObj [(''contents'', JStr ''x'')])])])])])"
  by (simp add: editFile_def editedTree_def getCurrentFileContent_def contentsAt_def
      initialProject_def element_def ownOrInherited_def inheritedProp_def objectPrototype_def
      member_def ownProp_def fileNode_def optMember_def spread_def truthy_def)

text \<open>The same for every tree: a directory that the tree neither has nor inherits makes
  the edit throw. A name that an object inherits, such as \<^verbatim>\<open>constructor\<close>, is not
  missing: the edit then creates the directory.\<close>

lemma editFile_missing_directory:
  assumes "map_of root dir = None" and "objectPrototype dir = None"
    and "CHR ''/'' \<notin> set dir" and "CHR ''/'' \<notin> set name"
  shows "editedTree builtin (JObj root) (dir @ ''/'' @ name) x = Inl TypeError"
  unfolding editedTree_def path_segments [OF assms(3,4)]
  using path_has_slash [of dir name] assms(1,2)
  by (simp add: element_def ownOrInherited_def inheritedProp_def member_def
      del: includesStr.simps)

lemma editFile_inherited_directory:
  "editedTree builtin (JObj []) ''constructor/x'' ''y''
     = Inr (JObj [(''constructor'', JObj [(''directory'', JObj [(''x'',
              JObj [(''file'', JObj [(''contents'', JStr ''y'')])])])])])"
  by (simp add: editedTree_def element_def ownOrInherited_def inheritedProp_def
      objectPrototype_def member_def spread_def fileNode_def)

section \<open>Mounting\<close>

text \<open>A message of the assistant whose decoded content carries a tree asks the sandbox
  to mount that tree, when the handler has captured a sandbox; the tree of the screen is
  not set by the handler itself. A handler that has captured no sandbox, as the one
  registered in the first render, never asks for a mount and never changes the tree.\<close>

lemma handler_mounts_tree:
  assumes "sender_id (sender data) = ''ai''"
    and "sanitizeJsonString parse (message data) = Inr msg"
    and "\<not> flagsTree msg" and "carriesTree msg" and "sandbox"
  shows "onProjectMessage tpl parse sandbox data st =
     appendMessage data (mountTree FromMessage (optMember msg ''fileTree'') st)"
  using assms by (simp add: onProjectMessage_def aiMessage_def)

lemma handler_without_sandbox:
  "mounts (onProjectMessage tpl parse False data st) = mounts st
   \<and> fileTree (onProjectMessage tpl parse False data st) = fileTree st"
  by (auto simp: onProjectMessage_def aiMessage_def appendMessage_def createReactApp_def
      createExpressApp_def createApp_def Let_def split: sum.splits jsval.splits)

text \<open>
  C2. Claim: when a tree \<open>T1\<close> and then a tree \<open>T2\<close> are sent to the sandbox before either
  mount settles, the tree of the screen is \<open>T2\<close> once both have settled.

  The tree is set by the callback of each promise (lines 314 and 588), and nothing marks a
  promise as superseded. When the mount of \<open>T2\<close> settles first and the mount of \<open>T1\<close>
  after it, the tree of the screen ends as \<open>T1\<close>.
\<close>

theorem mount_order_counterexample:
  "fileTree (mountSettled 0 Fulfilled (mountSettled 1 Fulfilled
      (mountTree FromMessage (JObj [(''b.txt'', fileNode ''2'')])
        (mountTree FromMessage (JObj [(''a.txt'', fileNode ''1'')]) initialProject))))
    = JObj [(''a.txt'', fileNode ''1'')]
   \<and> JObj [(''a.txt'', fileNode ''1'')] \<noteq> JObj [(''b.txt'', fileNode ''2'')]"
  by (simp add: mountSettled_def mountTree_def initialProject_def)

text \<open>
  C2 as amended: sending the two trees does not change the tree of the screen; once both
  mounts have succeeded it is the tree whose mount settled last: \<open>T2\<close> when the mounts
  settle in the order of the requests, \<open>T1\<close> when the mount of \<open>T1\<close> settles after that of
  \<open>T2\<close>. This holds whoever asked for the mounts and whatever else is pending.
\<close>

theorem last_settled_mount_wins:
  "fileTree (mountTree o2 T2 (mountTree o1 T1 st)) = fileTree st
   \<and> fileTree (mountSettled (length (mounts st)) Fulfilled
        (mountSettled (length (mounts st)) Fulfilled
          (mountTree o2 T2 (mountTree o1 T1 st)))) = T2
   \<and> fileTree (mountSettled (length (mounts st)) Fulfilled
        (mountSettled (Suc (length (mounts st))) Fulfilled
          (mountTree o2 T2 (mountTree o1 T1 st)))) = T1"
  by (cases o1; cases o2) (simp_all add: mountSettled_def mountTree_def nth_append)

theorem last_settled_mount_wins_witness:
  "fileTree (mountSettled 0 Fulfilled (mountSettled 0 Fulfilled
      (mountTree FromMessage (JObj [(''b.txt'', fileNode ''2'')])
        (mountTree FromMessage (JObj [(''a.txt'', fileNode ''1'')]) initialProject))))
    = JObj [(''b.txt'', fileNode ''2'')]"
  using last_settled_mount_wins [of FromMessage "JObj [(''b.txt'', fileNode ''2'')]"
      FromMessage "JObj [(''a.txt'', fileNode ''1'')]" initialProject]
  by (simp add: initialProject_def)

section \<open>Reconnection\<close>

lemma connect_errors_count:
  "socket ch \<noteq> None \<Longrightarrow>
   reconnectAttempts (runChannel (replicate n ConnectError) ch) = reconnectAttempts ch + n
   \<and> socket (runChannel (replicate n ConnectError) ch) = socket ch"
  by (induction n arbitrary: ch) (auto simp: runChannel_def onConnectError_def)

text \<open>
  C4. Claim: the counter of reconnection attempts never exceeds the cap, is not incremented
  past it, and a manual reset sets it to 0.

  The listener of \<^verbatim>\<open>connect_error\<close> increments the counter without a test (line 35);
  \<^verbatim>\<open>initializeSocket\<close>, \<^verbatim>\<open>disconnect\<close> and the manual retry of the screen leave the
  counter alone. Three failures, a manual retry and three more failures give 6, above the
  cap of 5.
\<close>

theorem reconnectAttempts_exceeds_cap:
  "reconnectAttempts (runChannel
      [Initialize ''p'', ConnectError, ConnectError, ConnectError,
       Retry ''p'', ConnectError, ConnectError, ConnectError] initialChannel) = 6
   \<and> \<not> (6 \<le> MAX_RECONNECT_ATTEMPTS)"
  by (simp add: runChannel_def initialChannel_def initializeSocket_def onConnectError_def
      retryConnection_def disconnect_def MAX_RECONNECT_ATTEMPTS_def)

text \<open>
  C4 as amended: the counter counts connection errors and has no cap.
  \<^item> After a socket is initialized with a project id that is not empty, any number \<open>n\<close> of
    connection errors leaves the module with that same socket, not connected and created
    with the cap as its \<^verbatim>\<open>reconnectionAttempts\<close> option, and with \<open>n\<close> added to the
    counter, also beyond the cap; sending then returns false.
  \<^item> On a module that has a socket, every connection error adds one to the counter and a
    successful connection sets it to 0.
  \<^item> \<^verbatim>\<open>initializeSocket\<close>, \<^verbatim>\<open>disconnect\<close>, the manual retry, the listener of
    \<^verbatim>\<open>disconnect\<close> and \<^verbatim>\<open>receiveMessage\<close> leave the counter as it is.
  \<^item> No event other than a successful connection lowers the counter, and no run of events
    without one does.
\<close>

theorem reconnectAttempts_counts_errors:
  "(projectId \<noteq> [] \<longrightarrow>
      runChannel (replicate n ConnectError) (snd (initializeSocket projectId ch))
        = \<lparr>socket = Some \<lparr>connected = False, reconnection = True,
                           reconnectionAttempts = MAX_RECONNECT_ATTEMPTS,
                           reconnectionDelay = 2000, timeout = 30000, listeners = []\<rparr>,
           reconnectAttempts = reconnectAttempts ch + n\<rparr>
      \<and> \<not> sendMessage
            (runChannel (replicate n ConnectError) (snd (initializeSocket projectId ch))))
   \<and> (socket ch \<noteq> None \<longrightarrow>
        reconnectAttempts (onConnectError ch) = reconnectAttempts ch + 1
        \<and> reconnectAttempts (onConnect ch) = 0)
   \<and> reconnectAttempts (snd (initializeSocket anyId ch)) = reconnectAttempts ch
   \<and> reconnectAttempts (disconnect ch) = reconnectAttempts ch
   \<and> reconnectAttempts (retryConnection anyId ch) = reconnectAttempts ch
   \<and> reconnectAttempts (onDisconnect ch) = reconnectAttempts ch
   \<and> reconnectAttempts (snd (receiveMessage name ch)) = reconnectAttempts ch
   \<and> (event \<noteq> Connect \<longrightarrow> reconnectAttempts ch \<le> reconnectAttempts (channelStep ch event))
   \<and> (Connect \<notin> set events \<longrightarrow> reconnectAttempts ch \<le> reconnectAttempts (runChannel events ch))"
proof -
  have run: "runChannel (replicate n ConnectError) (snd (initializeSocket projectId ch))
        = \<lparr>socket = Some newSocket, reconnectAttempts = reconnectAttempts ch + n\<rparr>"
    if "projectId \<noteq> []"
  proof -
    let ?ch = "snd (initializeSocket projectId ch)"
    have "socket ?ch = Some newSocket" and "reconnectAttempts ?ch = reconnectAttempts ch"
      using that by (simp_all add: initializeSocket_def)
    moreover from this have "socket ?ch \<noteq> None"
      by simp
    ultimately show ?thesis
      using connect_errors_count [of ?ch n] by simp
  qed
  have step: "reconnectAttempts c \<le> reconnectAttempts (channelStep c e)" if "e \<noteq> Connect"
    for c e
    using that
    by (cases e)
      (simp_all add: initializeSocket_def onConnectError_def onDisconnect_def disconnect_def
        retryConnection_def split: option.splits)
  have runs: "reconnectAttempts c \<le> reconnectAttempts (runChannel evs c)"
    if "Connect \<notin> set evs" for c evs
    using that
  proof (induction evs arbitrary: c)
    case Nil
    show ?case by (simp add: runChannel_def)
  next
    case (Cons e evs)
    then have "reconnectAttempts c \<le> reconnectAttempts (channelStep c e)"
      and "reconnectAttempts (channelStep c e)
            \<le> reconnectAttempts (runChannel evs (channelStep c e))"
      using step [of e c] by auto
    then show ?case by (simp add: runChannel_def)
  qed
  show ?thesis
    using run step [of event ch] runs [of events ch]
    by (auto simp: newSocket_def sendMessage_def initializeSocket_def disconnect_def
        retryConnection_def onDisconnect_def receiveMessage_def onConnect_def
        onConnectError_def split: option.splits)
qed

theorem reconnectAttempts_counts_errors_witness:
  "''p'' \<noteq> []
   \<and> runChannel (replicate 7 ConnectError) (snd (initializeSocket ''p'' initialChannel))
       = \<lparr>socket = Some \<lparr>connected = False, reconnection = True, reconnectionAttempts = 5,
                          reconnectionDelay = 2000, timeout = 30000, listeners = []\<rparr>,
          reconnectAttempts = 7\<rparr>
   \<and> \<not> sendMessage
        (runChannel (replicate 7 ConnectError) (snd (initializeSocket ''p'' initialChannel)))
   \<and> socket (snd (initializeSocket ''p'' initialChannel)) \<noteq> None
   \<and> reconnectAttempts (onConnectError (snd (initializeSocket ''p'' initialChannel))) = 1
   \<and> reconnectAttempts (onConnect (onConnectError (snd (initializeSocket ''p'' initialChannel))))
       = 0
   \<and> reconnectAttempts (onDisconnect (onConnectError (snd (initializeSocket ''p'' initialChannel))))
       = 1
   \<and> Disconnect \<noteq> Connect
   \<and> Connect \<notin> set [Disconnect, Retry ''p'', ConnectError, Teardown]
   \<and> reconnectAttempts (onConnectError (snd (initializeSocket ''p'' initialChannel)))
       \<le> reconnectAttempts
            (runChannel [Disconnect, Retry ''p'', ConnectError, Teardown]
               (onConnectError (snd (initializeSocket ''p'' initialChannel))))
   \<and> reconnectAttempts
        (runChannel [Disconnect, Retry ''p'', ConnectError, Teardown]
           (onConnectError (snd (initializeSocket ''p'' initialChannel)))) = 2"
proof -
  let ?ch = "snd (initializeSocket ''p'' initialChannel)"
  let ?evs = "[Disconnect, Retry ''p'', ConnectError, Teardown]"
  have h1: "''p'' \<noteq> []"
    by simp
  have h2: "socket ?ch \<noteq> None" and h2': "socket (onConnectError ?ch) \<noteq> None"
    by (simp_all add: initializeSocket_def onConnectError_def)
  have h3: "Disconnect \<noteq> Connect" and h4: "Connect \<notin> set ?evs"
    by simp_all
  have r: "reconnectAttempts ?ch = 0" "reconnectAttempts initialChannel = 0"
    by (simp_all add: initializeSocket_def initialChannel_def)
  have v: "reconnectAttempts (runChannel ?evs (onConnectError ?ch)) = 2"
    by (simp add: runChannel_def initialChannel_def initializeSocket_def onConnectError_def
        onDisconnect_def retryConnection_def disconnect_def)
  note a = reconnectAttempts_counts_errors [of "''p''" 7 initialChannel]
  note b = reconnectAttempts_counts_errors [of _ _ ?ch]
  note c = reconnectAttempts_counts_errors [of _ _ "onConnectError ?ch" _ _ Disconnect ?evs]
  have c1: "runChannel (replicate 7 ConnectError) ?ch
       = \<lparr>socket = Some \<lparr>connected = False, reconnection = True, reconnectionAttempts = 5,
                          reconnectionDelay = 2000, timeout = 30000, listeners = []\<rparr>,
          reconnectAttempts = 7\<rparr>"
    using a h1 r by (simp add: MAX_RECONNECT_ATTEMPTS_def)
  have c2: "\<not> sendMessage (runChannel (replicate 7 ConnectError) ?ch)"
    using a h1 by blast
  have c3: "reconnectAttempts (onConnectError ?ch) = 1"
    using b h2 r by simp
  have c4: "reconnectAttempts (onConnect (onConnectError ?ch)) = 0"
    and c5: "reconnectAttempts (onDisconnect (onConnectError ?ch)) = 1"
    and c6: "reconnectAttempts (onConnectError ?ch)
       \<le> reconnectAttempts (runChannel ?evs (onConnectError ?ch))"
    using c h2' h4 c3 by simp_all
  from h1 c1 c2 h2 c3 c4 c5 h3 h4 c6 v show ?thesis
    by blast
qed

end
